theory Spec2Isabelle
  imports Main "HOL-Library.Word"
begin

section \<open>Python values used by \<^verbatim>\<open>main.py\<close>\<close>

text \<open>
  A Python \<^verbatim>\<open>str\<close> is a \<^typ>\<open>string\<close>; one \<^typ>\<open>char\<close> stands for one character of the
  Python string (a code point below 256). A Python \<^verbatim>\<open>bytes\<close> object is a list of 8-bit words,
  a Python \<^verbatim>\<open>int\<close> is an \<^typ>\<open>int\<close>.
\<close>

type_synonym bytes = "8 word list"

text \<open>
  Exceptions. Every value of \<^verbatim>\<open>exn\<close> is an instance of Python's \<^verbatim>\<open>Exception\<close>: it has a class
  and the text that \<^verbatim>\<open>str(e)\<close> (and so \<^verbatim>\<open>{e}\<close> in an f-string) yields. The program tells
  apart \<^verbatim>\<open>FileNotFoundError\<close>, \<^verbatim>\<open>ValueError\<close> and everything else (second \<^verbatim>\<open>except\<close> clause
  of \<^verbatim>\<open>main\<close>); a subclass of one of the first two is represented by its base class, any other
  class by its name. \<^verbatim>\<open>hasattr\<close> tells \<^verbatim>\<open>AttributeError\<close> apart from everything else.
\<close>

datatype exn_class = FileNotFoundError | ValueError | OtherException string

datatype exn = Exn (exn_class: exn_class) (exn_str: string)

definition is_AttributeError :: "exn \<Rightarrow> bool" where
  "is_AttributeError e = (exn_class e = OtherException ''AttributeError'')"

subsection \<open>Strings\<close>

text \<open>\<^verbatim>\<open>str.isspace\<close> on one character: the whitespace code points below 256.\<close>

definition isspace :: "char \<Rightarrow> bool" where
  "isspace c = (of_char c \<in> {9, 10, 11, 12, 13, 28, 29, 30, 31, 32, 133, 160 :: nat})"

text \<open>\<^verbatim>\<open>s.strip()\<close>: drop the whitespace at both ends.\<close>

definition strip :: "string \<Rightarrow> string" where
  "strip s = rev (dropWhile isspace (rev (dropWhile isspace s)))"

text \<open>\<^verbatim>\<open>sep.join(xs)\<close>.\<close>

fun join :: "string \<Rightarrow> string list \<Rightarrow> string" where
  "join sep [] = []"
| "join sep [x] = x"
| "join sep (x # y # ys) = x @ sep @ join sep (y # ys)"

text \<open>\<^verbatim>\<open>str(n)\<close> for an integer, as the f-strings format slide numbers and counts.\<close>

fun str_nat :: "nat \<Rightarrow> string" where
  "str_nat n =
     (if n < 10 then [''0123456789'' ! n]
      else str_nat (n div 10) @ [''0123456789'' ! (n mod 10)])"

declare str_nat.simps [simp del]

definition str :: "int \<Rightarrow> string" where
  "str i = (if i < 0 then CHR ''-'' # str_nat (nat (- i)) else str_nat (nat i))"

text \<open>\<^verbatim>\<open>enumerate(xs)\<close> counts from 0.\<close>

fun enumerate_from :: "int \<Rightarrow> 'a list \<Rightarrow> (int \<times> 'a) list" where
  "enumerate_from i [] = []"
| "enumerate_from i (x # xs) = (i, x) # enumerate_from (i + 1) xs"

definition py_enumerate :: "'a list \<Rightarrow> (int \<times> 'a) list" where
  "py_enumerate xs = enumerate_from 0 xs"

subsection \<open>Dictionaries\<close>

text \<open>
  A Python \<^verbatim>\<open>dict\<close> keeps its entries in insertion order, and \<^verbatim>\<open>d.items()\<close> iterates in that
  order: an association list with distinct keys. \<^verbatim>\<open>d[k] = v\<close> replaces the value of an existing
  key where it stands and appends a new key at the end.
\<close>

type_synonym ('k, 'v) dict = "('k \<times> 'v) list"

fun dict_set :: "('k, 'v) dict \<Rightarrow> 'k \<Rightarrow> 'v \<Rightarrow> ('k, 'v) dict" where
  "dict_set [] k v = [(k, v)]"
| "dict_set ((k', v') # d) k v =
     (if k' = k then (k, v) # d else (k', v') # dict_set d k v)"

definition dict_get :: "('k, 'v) dict \<Rightarrow> 'k \<Rightarrow> 'v option" where
  "dict_get d k = map_of d k"

definition dict_keys :: "('k, 'v) dict \<Rightarrow> 'k list" where
  "dict_keys d = map fst d"

section \<open>The document, the outside world and effects\<close>

text \<open>
  What the container parser hands to the program. A shape exposes up to three capabilities,
  independently of each other: \<^verbatim>\<open>shape.has_text_frame\<close> with \<^verbatim>\<open>shape.text_frame.text\<close>,
  \<^verbatim>\<open>shape.has_table\<close> with the texts \<^verbatim>\<open>cell.text_frame.text\<close> of \<^verbatim>\<open>shape.table.rows\<close> (a list of
  rows, each the list of its \<^verbatim>\<open>cells\<close>), and an attribute \<^verbatim>\<open>image\<close>.

  Reading \<^verbatim>\<open>shape.image\<close> has three outcomes: the shape has no such attribute; the attribute
  is there and \<^verbatim>\<open>shape.image.blob\<close> are the picture's bytes; or the attribute is a property
  whose getter raises (python-pptx raises \<^verbatim>\<open>ValueError\<close> for a picture that is linked and not
  embedded).
\<close>

datatype image_attr = NoImage | ImageBlob bytes | ImageRaises exn

record shape =
  text_frame :: "string option"
  table :: "string list list option"
  image :: image_attr

record slide =
  shapes :: "shape list"

record presentation =
  slides :: "slide list"

text \<open>A decoded picture, as \<^verbatim>\<open>Image.open\<close> returns it.\<close>

datatype pil_image = PilImage bytes

text \<open>
  The collaborators outside the program, one field for each: the value of the module variable
  \<^verbatim>\<open>GEMINI_API_KEY\<close> (\<^verbatim>\<open>os.getenv\<close> after \<^verbatim>\<open>load_dotenv\<close>; \<open>None\<close> when the variable is unset),
  \<^verbatim>\<open>os.path.exists\<close>, the parser \<^verbatim>\<open>Presentation(path)\<close>, \<^verbatim>\<open>Image.open\<close> on the bytes,
  \<^verbatim>\<open>pytesseract.image_to_string\<close>, and the remote call \<^verbatim>\<open>model.generate_content(prompt).text\<close>.
  A call that can raise returns \<open>Inl\<close> of the exception.
\<close>

record world =
  GEMINI_API_KEY :: "string option"
  os_path_exists :: "string \<Rightarrow> bool"
  Presentation :: "string \<Rightarrow> exn + presentation"
  Image_open :: "bytes \<Rightarrow> exn + pil_image"
  image_to_string :: "pil_image \<Rightarrow> exn + string"
  generate_content :: "string \<Rightarrow> exn + string"

text \<open>
  What a run does to the outside, in the order it does it: a line printed, a query of the file
  system, the document opened and parsed, a picture decoded, a picture recognised, the client
  library configured, the request sent to the inference service.
\<close>

datatype event =
    Stdout string
  | OsPathExists string
  | OpenPresentation string
  | ImageOpen bytes
  | ImageToString pil_image
  | GenaiConfigure string
  | GenerateContent string

text \<open>
  A computation yields the events it caused and either the exception it raised or its value.
\<close>

type_synonym 'a io = "event list \<times> (exn + 'a)"

definition ret :: "'a \<Rightarrow> 'a io" where
  "ret x = ([], Inr x)"

definition raise :: "exn \<Rightarrow> 'a io" where
  "raise e = ([], Inl e)"

definition bind :: "'a io \<Rightarrow> ('a \<Rightarrow> 'b io) \<Rightarrow> 'b io" where
  "bind m f =
     (case m of
        (t, Inl e) \<Rightarrow> (t, Inl e)
      | (t, Inr x) \<Rightarrow> (case f x of (t', r) \<Rightarrow> (t @ t', r)))"

text \<open>\<^verbatim>\<open>try: m except Exception as e: h(e)\<close>.\<close>

definition try_except :: "'a io \<Rightarrow> (exn \<Rightarrow> 'a io) \<Rightarrow> 'a io" where
  "try_except m h =
     (case m of
        (t, Inl e) \<Rightarrow> (case h e of (t', r) \<Rightarrow> (t @ t', r))
      | (t, Inr x) \<Rightarrow> (t, Inr x))"

text \<open>A call to a collaborator: the event, and the outcome the world gives.\<close>

definition call :: "event \<Rightarrow> exn + 'a \<Rightarrow> 'a io" where
  "call ev outcome = ([ev], outcome)"

definition print :: "string \<Rightarrow> unit io" where
  "print s = ([Stdout s], Inr ())"

text \<open>\<^verbatim>\<open>for x in xs: body\<close>, the loop's variables threaded through as \<open>s\<close>.\<close>

fun for_each :: "('s \<Rightarrow> 'a \<Rightarrow> 's io) \<Rightarrow> 's \<Rightarrow> 'a list \<Rightarrow> 's io" where
  "for_each body s [] = ret s"
| "for_each body s (x # xs) = bind (body s x) (\<lambda>s'. for_each body s' xs)"

definition events :: "'a io \<Rightarrow> event list" where
  "events m = fst m"

definition outcome :: "'a io \<Rightarrow> exn + 'a" where
  "outcome m = snd m"

section \<open>The program\<close>

subsection \<open>\<^verbatim>\<open>configure_ai\<close>\<close>

definition configure_ai :: "world \<Rightarrow> unit io" where
  "configure_ai w =
     (case GEMINI_API_KEY w of
        None \<Rightarrow> raise (Exn ValueError ''GEMINI_API_KEY not found. Please set it in your .env file.'')
      | Some key \<Rightarrow>
          if key = [] then
            raise (Exn ValueError ''GEMINI_API_KEY not found. Please set it in your .env file.'')
          else call (GenaiConfigure key) (Inr ()))"

subsection \<open>\<^verbatim>\<open>extract_text_from_image\<close>\<close>

definition extract_text_from_image :: "world \<Rightarrow> bytes \<Rightarrow> string io" where
  "extract_text_from_image w image_bytes =
     try_except
       (bind (call (ImageOpen image_bytes) (Image_open w image_bytes)) (\<lambda>image.
        bind (call (ImageToString image) (image_to_string w image)) (\<lambda>text.
        ret (strip text))))
       (\<lambda>e.
        bind (print (''    - Warning: Could not process an image. Error: '' @ exn_str e)) (\<lambda>_.
        ret []))"

subsection \<open>\<^verbatim>\<open>extract_data_from_pptx\<close>\<close>

text \<open>
  \<^verbatim>\<open>hasattr(shape, 'image')\<close> reads the attribute: it is \<^verbatim>\<open>False\<close> when there is none or when the
  getter raises an \<^verbatim>\<open>AttributeError\<close>, \<^verbatim>\<open>True\<close> when the getter returns, and any other exception
  of the getter leaves \<^verbatim>\<open>hasattr\<close> as it is. \<^verbatim>\<open>shape.image.blob\<close> reads the attribute again.
\<close>

definition hasattr_image :: "shape \<Rightarrow> bool io" where
  "hasattr_image sh =
     (case image sh of
        NoImage \<Rightarrow> ret False
      | ImageBlob blob \<Rightarrow> ret True
      | ImageRaises e \<Rightarrow> if is_AttributeError e then ret False else raise e)"

definition image_blob :: "shape \<Rightarrow> bytes io" where
  "image_blob sh =
     (case image sh of
        NoImage \<Rightarrow> raise (Exn (OtherException ''AttributeError'') ''image'')
      | ImageBlob blob \<Rightarrow> ret blob
      | ImageRaises e \<Rightarrow> raise e)"

text \<open>
  The body of \<^verbatim>\<open>for shape in slide.shapes\<close>. The loop's variables are \<^verbatim>\<open>slide_texts\<close> and
  \<^verbatim>\<open>image_count\<close>; \<^verbatim>\<open>append\<close> adds at the end. The three tests are independent \<^verbatim>\<open>if\<close>s, and
  none of them stands inside a \<^verbatim>\<open>try\<close>.
\<close>

definition append_cells :: "string list \<Rightarrow> string list list \<Rightarrow> string list" where
  "append_cells slide_texts rows =
     foldl (\<lambda>acc row. foldl (\<lambda>acc' cell. acc' @ [cell]) acc row) slide_texts rows"

definition shape_body :: "world \<Rightarrow> string list \<times> int \<Rightarrow> shape \<Rightarrow> (string list \<times> int) io" where
  "shape_body w st sh =
     (case st of (slide_texts, image_count) \<Rightarrow>
        let slide_texts1 =
              (case text_frame sh of
                 Some text \<Rightarrow> slide_texts @ [text]
               | None \<Rightarrow> slide_texts);
            slide_texts2 =
              (case table sh of
                 Some rows \<Rightarrow> append_cells slide_texts1 rows
               | None \<Rightarrow> slide_texts1)
        in
          bind (hasattr_image sh) (\<lambda>has_image.
          if has_image then
            bind (image_blob sh) (\<lambda>image_bytes.
            bind (extract_text_from_image w image_bytes) (\<lambda>ocr_text.
            ret (if ocr_text \<noteq> []
                 then slide_texts2 @ [''[OCR Text from Image]:\<newline>'' @ ocr_text]
                 else slide_texts2,
                 image_count + 1)))
          else ret (slide_texts2, image_count)))"

text \<open>
  The body of \<^verbatim>\<open>for i, slide in enumerate(prs.slides)\<close>. The loop's variable is the dictionary
  \<^verbatim>\<open>slide_data\<close>; \<^verbatim>\<open>slide_texts\<close> and \<^verbatim>\<open>image_count\<close> start afresh in every round.
  \<^verbatim>\<open>filter(None, slide_texts)\<close> keeps the strings that are not empty.
\<close>

definition slide_body ::
  "world \<Rightarrow> (int, string) dict \<Rightarrow> int \<times> slide \<Rightarrow> (int, string) dict io" where
  "slide_body w slide_data p =
     (case p of (i, sl) \<Rightarrow>
        let slide_number = i + 1 in
        bind (for_each (shape_body w) ([], 0) (shapes sl)) (\<lambda>st.
        case st of (slide_texts, image_count) \<Rightarrow>
          let slide_data' =
                dict_set slide_data slide_number
                  (join ''\<newline>'' (filter (\<lambda>t. t \<noteq> []) slide_texts))
          in
          bind (print
                 (if image_count > 0
                  then ''    - Extracted text and '' @ str image_count
                         @ '' image(s) from Slide '' @ str slide_number
                  else ''    - Extracted text from Slide '' @ str slide_number)) (\<lambda>_.
          ret slide_data')))"

definition extract_data_from_pptx :: "world \<Rightarrow> string \<Rightarrow> (int, string) dict io" where
  "extract_data_from_pptx w pptx_path =
     bind (call (OsPathExists pptx_path) (Inr (os_path_exists w pptx_path))) (\<lambda>exists.
     if \<not> exists then
       raise (Exn FileNotFoundError
                (''The file '' @ [CHR 0x27] @ pptx_path @ [CHR 0x27] @ '' was not found.''))
     else
       bind (call (OpenPresentation pptx_path) (Presentation w pptx_path)) (\<lambda>prs.
       bind (print (''[+] Extracting text from '' @ str (int (length (slides prs)))
                      @ '' slides...'')) (\<lambda>_.
       for_each (slide_body w) [] (py_enumerate (slides prs)))))"

subsection \<open>\<^verbatim>\<open>analyze_text_with_gemini\<close>\<close>

text \<open>
  The f-string of the prompt around \<^verbatim>\<open>{all_slides_text}\<close>. Building the model handle
  (\<^verbatim>\<open>genai.GenerativeModel\<close> with a constant name) sends nothing and is no event.
\<close>

definition prompt_head :: string where
  \<open>prompt_head =
    ''\<newline>'' @
    ''    You are an expert business and strategy consultant for a top-tier firm like McKinsey or BCG. \<newline>'' @
    ''    Your task is to meticulously analyze the following content extracted from a multi-slide PowerPoint presentation. \<newline>'' @
    ''    The content from each slide is clearly separated and labeled with '--- Slide X ---'.\<newline>'' @
    ''\<newline>'' @
    ''    Your goal is to identify all factual, numerical, and logical inconsistencies across the entire deck. Pay close attention to:\<newline>'' @
    ''    1.  **Conflicting Numerical Data:** Look for mismatched revenue figures, user counts, market shares, financial projections, or percentages that don't add up. Be precise. For example, '$15M' on one slide vs. '$12M' on another.\<newline>'' @
    ''    2.  **Contradictory Textual Claims:** Identify statements that contradict each other. For example, "we are entering a low-competition market" on one slide and "we must navigate a highly competitive landscape" on another.\<newline>'' @
    ''    3.  **Timeline Mismatches:** Find conflicting dates, project phases, or launch forecasts.\<newline>'' @
    ''\<newline>'' @
    ''    **Instructions for Output:**\<newline>'' @
    ''    - Analyze the content below thoroughly.\<newline>'' @
    ''    - If you find one or more inconsistencies, list each one clearly. For each inconsistency, provide:\<newline>'' @
    ''        - A short, bolded title for the inconsistency (e.g., **Conflicting Revenue Projections**).\<newline>'' @
    ''        - The slide numbers where the conflicting information appears (e.g., "Slide 2 vs. Slide 4.").\<newline>'' @
    ''        - The specific conflicting data or statements, quoting them if possible.\<newline>'' @
    ''        - A brief explanation of why it's an inconsistency.\<newline>'' @
    ''    - If you find absolutely no inconsistencies, you MUST respond with the single sentence: "No inconsistencies were found in the presentation."\<newline>'' @
    ''    - Do not comment on the presentation's quality, style, or grammar. Focus ONLY on factual and logical contradictions.\<newline>'' @
    ''\<newline>'' @
    ''    Here is the presentation content:\<newline>'' @
    ''    ---\<newline>'' @
    ''    ''\<close>

definition prompt_tail :: string where
  "prompt_tail =
    ''\<newline>'' @
    ''    ---\<newline>'' @
    ''    ''"

definition analyze_text_with_gemini :: "world \<Rightarrow> string \<Rightarrow> string io" where
  "analyze_text_with_gemini w all_slides_text =
     (let prompt = prompt_head @ all_slides_text @ prompt_tail in
      try_except
        (call (GenerateContent prompt) (generate_content w prompt))
        (\<lambda>e. ret (''An error occurred while communicating with the AI model: '' @ exn_str e)))"

subsection \<open>\<^verbatim>\<open>main\<close>\<close>

text \<open>The join over \<^verbatim>\<open>slide_data.items()\<close> that builds \<^verbatim>\<open>consolidated_text\<close>.\<close>

definition slide_block :: "int \<times> string \<Rightarrow> string" where
  "slide_block p = (case p of (num, text) \<Rightarrow> ''--- Slide '' @ str num @ '' ---\<newline>'' @ text)"

definition consolidate :: "(int, string) dict \<Rightarrow> string" where
  "consolidate slide_data = join ''\<newline>\<newline>'' (map slide_block slide_data)"

text \<open>
  \<^verbatim>\<open>main\<close>, from the parsed command line on: \<^verbatim>\<open>pptx_file\<close> is \<^verbatim>\<open>args.pptx_file\<close>. The first
  \<^verbatim>\<open>except\<close> clause takes \<^verbatim>\<open>FileNotFoundError\<close> and \<^verbatim>\<open>ValueError\<close>, the second everything else.
\<close>

definition main_body :: "world \<Rightarrow> string \<Rightarrow> unit io" where
  "main_body w pptx_file =
     bind (configure_ai w) (\<lambda>_.
     bind (print (''[+] Starting analysis of '' @ [CHR 0x27] @ pptx_file @ [CHR 0x27] @ ''...'')) (\<lambda>_.
     bind (extract_data_from_pptx w pptx_file) (\<lambda>slide_data.
     bind (print ''[+] Extraction complete. Consolidating text for analysis.'') (\<lambda>_.
     let consolidated_text = consolidate slide_data in
     bind (print ''[+] Sending data to AI for inconsistency analysis...'') (\<lambda>_.
     bind (analyze_text_with_gemini w consolidated_text) (\<lambda>ai_report.
     bind (print ''[+] Analysis Complete.\<newline>'') (\<lambda>_.
     bind (print ''========================================'') (\<lambda>_.
     bind (print ''      AI Inconsistency Report'') (\<lambda>_.
     bind (print ''========================================'') (\<lambda>_.
     print ai_report))))))))))"

definition main :: "world \<Rightarrow> string \<Rightarrow> unit io" where
  "main w pptx_file =
     try_except (main_body w pptx_file) (\<lambda>e.
       if exn_class e = FileNotFoundError \<or> exn_class e = ValueError
       then print (''[!] Error: '' @ exn_str e)
       else print (''[!] An unexpected error occurred: '' @ exn_str e))"

section \<open>What the specification says a slide's entry is\<close>

text \<open>
  The text the image-text extractor hands back for a picture: the recognised text, trimmed,
  and the empty string when decoding or recognition fails.
\<close>

definition recognized_text :: "world \<Rightarrow> bytes \<Rightarrow> string" where
  "recognized_text w image_bytes =
     (case Image_open w image_bytes of
        Inl e \<Rightarrow> []
      | Inr img \<Rightarrow>
          (case image_to_string w img of
             Inl e \<Rightarrow> []
           | Inr text \<Rightarrow> strip text))"

text \<open>
  The fragments one shape contributes, in the specification's order: the text of its text
  frame, the cells of its table row by row, the labelled OCR text of its picture when that
  text is not empty.
\<close>

definition ocr_label :: string where
  "ocr_label = ''[OCR Text from Image]:''"

definition shape_fragments_spec :: "world \<Rightarrow> shape \<Rightarrow> string list" where
  "shape_fragments_spec w sh =
     (case text_frame sh of None \<Rightarrow> [] | Some text \<Rightarrow> [text])
     @ (case table sh of None \<Rightarrow> [] | Some rows \<Rightarrow> concat rows)
     @ (case image sh of
          ImageBlob image_bytes \<Rightarrow>
            (if recognized_text w image_bytes = [] then []
             else [ocr_label @ ''\<newline>'' @ recognized_text w image_bytes])
        | _ \<Rightarrow> [])"

text \<open>The entry of a slide: its non-empty fragments, in shape order, joined by newlines.\<close>

definition slide_text_spec :: "world \<Rightarrow> slide \<Rightarrow> string" where
  "slide_text_spec w sl =
     join ''\<newline>''
       (filter (\<lambda>t. t \<noteq> []) (concat (map (shape_fragments_spec w) (shapes sl))))"

section \<open>Auxiliary notions for the statements\<close>

text \<open>The number of shapes of a slide that carry a picture.\<close>

definition carries_image :: "shape \<Rightarrow> bool" where
  "carries_image sh = (case image sh of ImageBlob blob \<Rightarrow> True | _ \<Rightarrow> False)"

definition count_images :: "shape list \<Rightarrow> int" where
  "count_images shs = int (length (filter carries_image shs))"

text \<open>
  The exception with which reading a shape's \<^verbatim>\<open>image\<close> stops the extraction, if it does; the
  first such exception among the shapes of a slide, and among all shapes of a list of slides
  in document order; a deck in which no shape stops the extraction.
\<close>

definition image_error :: "shape \<Rightarrow> exn option" where
  "image_error sh =
     (case image sh of
        ImageRaises e \<Rightarrow> if is_AttributeError e then None else Some e
      | _ \<Rightarrow> None)"

fun first_image_error :: "shape list \<Rightarrow> exn option" where
  "first_image_error [] = None"
| "first_image_error (sh # shs) =
     (case image_error sh of Some e \<Rightarrow> Some e | None \<Rightarrow> first_image_error shs)"

definition deck_image_error :: "slide list \<Rightarrow> exn option" where
  "deck_image_error sls = first_image_error (concat (map shapes sls))"




text \<open>
  The entries that the slide loop adds for the slides \<open>sls\<close> when \<^verbatim>\<open>enumerate\<close> has reached
  index \<open>i\<close>.
\<close>

definition new_entries :: "world \<Rightarrow> int \<Rightarrow> slide list \<Rightarrow> (int, string) dict" where
  "new_entries w i sls = map (\<lambda>p. (fst p + 1, slide_text_spec w (snd p))) (enumerate_from i sls)"

text \<open>The warning line of \<^verbatim>\<open>extract_text_from_image\<close>.\<close>

definition image_warning :: "exn \<Rightarrow> string" where
  "image_warning e = ''    - Warning: Could not process an image. Error: '' @ exn_str e"

section \<open>Notions used to state the error handling\<close>

text \<open>The events that reach the inference service, and those that touch the input file.\<close>

fun is_network_call :: "event \<Rightarrow> bool" where
  "is_network_call (GenerateContent prompt) = True"
| "is_network_call ev = False"

fun is_open_or_parse :: "event \<Rightarrow> bool" where
  "is_open_or_parse (OpenPresentation path) = True"
| "is_open_or_parse ev = False"

fun is_document_access :: "event \<Rightarrow> bool" where
  "is_document_access (OsPathExists path) = True"
| "is_document_access (OpenPresentation path) = True"
| "is_document_access ev = False"

text \<open>
  The two exceptions the program raises itself, the lines \<^verbatim>\<open>main\<close> prints, and the test
  \<^verbatim>\<open>if not GEMINI_API_KEY\<close> read positively.
\<close>

definition credential_missing_error :: exn where
  "credential_missing_error =
     Exn ValueError ''GEMINI_API_KEY not found. Please set it in your .env file.''"

definition not_found_error :: "string \<Rightarrow> exn" where
  "not_found_error pptx_path =
     Exn FileNotFoundError (''The file '' @ [CHR 0x27] @ pptx_path @ [CHR 0x27] @ '' was not found.'')"

definition report_line :: "exn \<Rightarrow> string" where
  "report_line e =
     (if exn_class e = FileNotFoundError \<or> exn_class e = ValueError
      then ''[!] Error: '' @ exn_str e
      else ''[!] An unexpected error occurred: '' @ exn_str e)"

definition starting_line :: "string \<Rightarrow> string" where
  "starting_line pptx_file = ''[+] Starting analysis of '' @ [CHR 0x27] @ pptx_file @ [CHR 0x27] @ ''...''"

definition credential_present :: "world \<Rightarrow> bool" where
  "credential_present w = (case GEMINI_API_KEY w of None \<Rightarrow> False | Some key \<Rightarrow> key \<noteq> [])"

definition header_line :: "int \<Rightarrow> string" where
  "header_line num = ''--- Slide '' @ str num @ '' ---''"

section \<open>A sample run\<close>

text \<open>
  A deck of five slides: a text frame with a table, an empty slide, a slide whose only shape is
  a picture that reads \<^verbatim>\<open>ABC\<close>, a slide whose only shape is a picture in which nothing but
  blanks is recognised, and a slide with a caption, a picture that cannot be decoded and a
  picture on which recognition fails. A second deck shares the third slide with it. A third
  deck has a caption on its first slide and a linked picture on its second.
\<close>

definition sample_deck :: presentation where
  "sample_deck = \<lparr>slides = [
      \<lparr>shapes = [\<lparr>text_frame = Some ''Revenue'',
                  table = Some [[''Q1'', ''Q2''], ['''', ''15M'']],
                  image = NoImage\<rparr>]\<rparr>,
      \<lparr>shapes = []\<rparr>,
      \<lparr>shapes = [\<lparr>text_frame = None, table = None, image = ImageBlob [1]\<rparr>]\<rparr>,
      \<lparr>shapes = [\<lparr>text_frame = None, table = None, image = ImageBlob [2]\<rparr>]\<rparr>,
      \<lparr>shapes = [\<lparr>text_frame = Some ''Chart'', table = None, image = ImageBlob []\<rparr>,
                 \<lparr>text_frame = None, table = None, image = ImageBlob [3]\<rparr>]\<rparr>]\<rparr>"

definition other_deck :: presentation where
  "other_deck = \<lparr>slides = [
      \<lparr>shapes = [\<lparr>text_frame = Some ''Agenda'', table = None, image = NoImage\<rparr>]\<rparr>,
      \<lparr>shapes = [\<lparr>text_frame = Some ''Costs'', table = None, image = NoImage\<rparr>]\<rparr>,
      \<lparr>shapes = [\<lparr>text_frame = None, table = None, image = ImageBlob [1]\<rparr>]\<rparr>]\<rparr>"

definition linked_deck :: presentation where
  "linked_deck = \<lparr>slides = [
      \<lparr>shapes = [\<lparr>text_frame = Some ''Title'', table = None, image = NoImage\<rparr>]\<rparr>,
      \<lparr>shapes = [\<lparr>text_frame = None, table = None,
                  image = ImageRaises (Exn ValueError ''no embedded image'')\<rparr>]\<rparr>]\<rparr>"

definition sample_open :: "bytes \<Rightarrow> exn + pil_image" where
  "sample_open b =
     (if b = [] then
        Inl (Exn (OtherException ''UnidentifiedImageError'') ''cannot identify image file'')
      else Inr (PilImage b))"

definition sample_ocr :: "pil_image \<Rightarrow> exn + string" where
  "sample_ocr img =
     (case img of PilImage b \<Rightarrow>
        if b = [1] then Inr '' ABC\<newline>''
        else if b = [2] then Inr ''  ''
        else Inl (Exn (OtherException ''TesseractError'') ''recognition failed''))"

definition sample_parser :: "string \<Rightarrow> exn + presentation" where
  "sample_parser p =
     (if p = ''deck.pptx'' then Inr sample_deck
      else if p = ''other.pptx'' then Inr other_deck
      else if p = ''linked.pptx'' then Inr linked_deck
      else Inl (Exn (OtherException ''PackageNotFoundError'') ''Package not found''))"

definition sample_world :: world where
  "sample_world =
     \<lparr>GEMINI_API_KEY = Some ''secret'',
      os_path_exists =
        (\<lambda>p. p = ''deck.pptx'' \<or> p = ''other.pptx'' \<or> p = ''linked.pptx'' \<or> p = ''notes.txt''),
      Presentation = sample_parser,
      Image_open = sample_open,
      image_to_string = sample_ocr,
      generate_content =
        (\<lambda>prompt. Inr ''No inconsistencies were found in the presentation.'')\<rparr>"

text \<open>The same machine without the credential and with the inference service down.\<close>

definition offline_world :: world where
  "offline_world =
     sample_world
       \<lparr>GEMINI_API_KEY := None,
        generate_content :=
          (\<lambda>prompt. Inl (Exn (OtherException ''ServiceUnavailable'') ''503 service unavailable''))\<rparr>"


section \<open>Effects and control flow\<close>

lemma outcome_ret: "outcome (ret x) = Inr x"
  by (simp add: outcome_def ret_def)

lemma events_ret: "events (ret x) = []"
  by (simp add: events_def ret_def)

lemma outcome_raise: "outcome (raise e) = Inl e"
  by (simp add: outcome_def raise_def)

lemma events_raise: "events (raise e) = []"
  by (simp add: events_def raise_def)

lemma outcome_call: "outcome (call ev r) = r"
  by (simp add: outcome_def call_def)

lemma events_call: "events (call ev r) = [ev]"
  by (simp add: events_def call_def)

lemma outcome_print: "outcome (print s) = Inr ()"
  by (simp add: outcome_def print_def)

lemma events_print: "events (print s) = [Stdout s]"
  by (simp add: events_def print_def)

lemma outcome_bind:
  "outcome (bind m f) = (case outcome m of Inl e \<Rightarrow> Inl e | Inr x \<Rightarrow> outcome (f x))"
  by (simp add: outcome_def bind_def split: prod.splits sum.splits)

lemma events_bind:
  "events (bind m f) = events m @ (case outcome m of Inl e \<Rightarrow> [] | Inr x \<Rightarrow> events (f x))"
  by (simp add: outcome_def events_def bind_def split: prod.splits sum.splits)

lemma outcome_try_except:
  "outcome (try_except m h) = (case outcome m of Inl e \<Rightarrow> outcome (h e) | Inr x \<Rightarrow> Inr x)"
  by (simp add: outcome_def try_except_def split: prod.splits sum.splits)

lemma events_try_except:
  "events (try_except m h) = events m @ (case outcome m of Inl e \<Rightarrow> events (h e) | Inr x \<Rightarrow> [])"
  by (simp add: outcome_def events_def try_except_def split: prod.splits sum.splits)

lemmas io_simps =
  outcome_ret events_ret outcome_raise events_raise outcome_call events_call
  outcome_print events_print outcome_bind events_bind outcome_try_except events_try_except

section \<open>The loops of the extractor\<close>

lemma outcome_extract_text_from_image:
  "outcome (extract_text_from_image w b) = Inr (recognized_text w b)"
  by (simp add: extract_text_from_image_def recognized_text_def io_simps split: sum.splits)

lemma append_cells_concat: "append_cells acc rows = acc @ concat rows"
proof -
  have row: "foldl (\<lambda>acc' cell. acc' @ [cell]) a r = a @ r" for a r :: "string list"
    by (induction r arbitrary: a) simp_all
  have "foldl (\<lambda>acc row. foldl (\<lambda>acc' cell. acc' @ [cell]) acc row) acc rows = acc @ concat rows"
    by (induction rows arbitrary: acc) (simp_all add: row)
  then show ?thesis by (simp add: append_cells_def)
qed

lemma outcome_shape_body:
  "outcome (shape_body w (texts, n) sh) =
     (case image_error sh of
        Some e \<Rightarrow> Inl e
      | None \<Rightarrow> Inr (texts @ shape_fragments_spec w sh, n + (if carries_image sh then 1 else 0)))"
  by (cases "image sh")
     (simp_all add: shape_body_def shape_fragments_spec_def ocr_label_def append_cells_concat
        io_simps outcome_extract_text_from_image Let_def hasattr_image_def image_blob_def
        image_error_def carries_image_def split: option.splits)

lemma outcome_shape_loop:
  "outcome (for_each (shape_body w) (texts, n) shs) =
     (case first_image_error shs of
        Some e \<Rightarrow> Inl e
      | None \<Rightarrow> Inr (texts @ concat (map (shape_fragments_spec w) shs), n + count_images shs))"
proof (induction shs arbitrary: texts n)
  case Nil
  show ?case by (simp add: io_simps count_images_def)
next
  case (Cons sh shs)
  show ?case
    by (simp add: io_simps outcome_shape_body Cons.IH count_images_def split: option.splits)
qed

lemma outcome_slide_body:
  "outcome (slide_body w d (i, sl)) =
     (case first_image_error (shapes sl) of
        Some e \<Rightarrow> Inl e
      | None \<Rightarrow> Inr (dict_set d (i + 1) (slide_text_spec w sl)))"
  by (simp add: slide_body_def io_simps outcome_shape_loop slide_text_spec_def Let_def
        split: option.splits)

lemma first_image_error_append:
  "first_image_error (xs @ ys) =
     (case first_image_error xs of Some e \<Rightarrow> Some e | None \<Rightarrow> first_image_error ys)"
  by (induction xs) (simp_all split: option.splits)

lemma deck_image_error_Cons:
  "deck_image_error (sl # sls) =
     (case first_image_error (shapes sl) of Some e \<Rightarrow> Some e | None \<Rightarrow> deck_image_error sls)"
  by (simp add: deck_image_error_def first_image_error_append split: option.splits)

lemma deck_image_error_append:
  "deck_image_error (xs @ ys) =
     (case deck_image_error xs of Some e \<Rightarrow> Some e | None \<Rightarrow> deck_image_error ys)"
  by (simp add: deck_image_error_def first_image_error_append split: option.splits)



lemma dict_set_fresh: "k \<notin> set (dict_keys d) \<Longrightarrow> dict_set d k v = d @ [(k, v)]"
  by (induction d) (auto simp: dict_keys_def)

lemma keys_new_entries: "dict_keys (new_entries w i sls) = [i + 1 .. i + int (length sls)]"
proof (induction sls arbitrary: i)
  case Nil
  show ?case by (simp add: new_entries_def dict_keys_def)
next
  case (Cons sl sls)
  have "dict_keys (new_entries w i (sl # sls)) = (i + 1) # dict_keys (new_entries w (i + 1) sls)"
    by (simp add: new_entries_def dict_keys_def)
  also have "\<dots> = (i + 1) # [i + 1 + 1 .. i + 1 + int (length sls)]"
    by (simp only: Cons.IH)
  also have "\<dots> = (i + 1) # [i + 1 + 1 .. i + int (length (sl # sls))]"
  proof -
    have "i + 1 + int (length sls) = i + int (length (sl # sls))" by simp
    then show ?thesis by (simp only:)
  qed
  also have "\<dots> = [i + 1 .. i + int (length (sl # sls))]"
    by (rule upto_rec1 [symmetric]) simp
  finally show ?case .
qed

lemma outcome_slide_loop:
  "\<forall>k \<in> set (dict_keys d). k \<le> i \<Longrightarrow>
   outcome (for_each (slide_body w) d (enumerate_from i sls)) =
     (case deck_image_error sls of
        Some e \<Rightarrow> Inl e
      | None \<Rightarrow> Inr (d @ new_entries w i sls))"
proof (induction sls arbitrary: d i)
  case Nil
  show ?case by (simp add: io_simps new_entries_def deck_image_error_def)
next
  case (Cons sl sls)
  have fresh: "i + 1 \<notin> set (dict_keys d)"
    using Cons.prems by auto
  have keys: "\<forall>k \<in> set (dict_keys (d @ [(i + 1, slide_text_spec w sl)])). k \<le> i + 1"
    using Cons.prems by (auto simp: dict_keys_def)
  show ?case
    using Cons.IH [OF keys]
    by (simp add: io_simps outcome_slide_body dict_set_fresh [OF fresh] new_entries_def
          deck_image_error_Cons split: option.splits)
qed

section \<open>Trimming\<close>

lemma strip_decomp:
  "s = takeWhile isspace s @ strip s @ rev (takeWhile isspace (rev (dropWhile isspace s)))"
proof -
  let ?r = "dropWhile isspace s"
  have "rev (dropWhile isspace (rev ?r)) @ rev (takeWhile isspace (rev ?r))
          = rev (takeWhile isspace (rev ?r) @ dropWhile isspace (rev ?r))"
    by (simp only: rev_append)
  also have "\<dots> = rev (rev ?r)"
    by (simp only: takeWhile_dropWhile_id)
  finally have "?r = strip s @ rev (takeWhile isspace (rev ?r))"
    by (simp add: strip_def)
  moreover have "s = takeWhile isspace s @ ?r"
    by simp
  ultimately show ?thesis by metis
qed

lemma strip_surrounded:
  "\<exists>pre post. s = pre @ strip s @ post \<and> list_all isspace pre \<and> list_all isspace post"
proof -
  have "list_all isspace (takeWhile isspace s)"
    by (simp add: list_all_iff) (meson set_takeWhileD)
  moreover have "list_all isspace (rev (takeWhile isspace (rev (dropWhile isspace s))))"
    by (simp add: list_all_iff) (meson set_takeWhileD)
  ultimately show ?thesis
    using strip_decomp [of s] by blast
qed

lemma strip_last: "strip s \<noteq> [] \<Longrightarrow> \<not> isspace (last (strip s))"
  by (simp add: strip_def last_rev hd_dropWhile)

lemma strip_hd:
  assumes "strip s \<noteq> []"
  shows "\<not> isspace (hd (strip s))"
proof -
  let ?r = "dropWhile isspace s"
  have "?r = strip s @ rev (takeWhile isspace (rev ?r))"
    using strip_decomp [of s] by (metis same_append_eq takeWhile_dropWhile_id)
  then have "hd ?r = hd (strip s)" and "?r \<noteq> []"
    using assms by (metis hd_append2, metis append_is_Nil_conv)
  then show ?thesis
    by (metis hd_dropWhile)
qed

lemma events_extract_text_from_image:
  "events (extract_text_from_image w b) =
     (case Image_open w b of
        Inl e \<Rightarrow> [ImageOpen b, Stdout (image_warning e)]
      | Inr img \<Rightarrow>
          (case image_to_string w img of
             Inl e \<Rightarrow> [ImageOpen b, ImageToString img, Stdout (image_warning e)]
           | Inr text \<Rightarrow> [ImageOpen b, ImageToString img]))"
  by (simp add: extract_text_from_image_def image_warning_def io_simps split: sum.splits)

section \<open>The ways a run can end early\<close>

lemma configure_ai_missing:
  "\<not> credential_present w \<Longrightarrow> configure_ai w = ([], Inl credential_missing_error)"
  by (simp add: configure_ai_def credential_present_def credential_missing_error_def raise_def
        split: option.splits)

lemma configure_ai_present:
  "credential_present w \<Longrightarrow> configure_ai w = ([GenaiConfigure (the (GEMINI_API_KEY w))], Inr ())"
  by (auto simp: configure_ai_def credential_present_def call_def split: option.splits)

lemma extract_missing:
  "\<not> os_path_exists w path \<Longrightarrow>
   extract_data_from_pptx w path = ([OsPathExists path], Inl (not_found_error path))"
  by (simp add: extract_data_from_pptx_def not_found_error_def bind_def call_def raise_def)

lemma extract_unparsable:
  "os_path_exists w path \<Longrightarrow> Presentation w path = Inl e \<Longrightarrow>
   extract_data_from_pptx w path = ([OsPathExists path, OpenPresentation path], Inl e)"
  by (simp add: extract_data_from_pptx_def bind_def call_def)

lemma main_credential_missing:
  "\<not> credential_present w \<Longrightarrow>
   main w path = ([Stdout (report_line credential_missing_error)], Inr ())"
  by (simp add: main_def main_body_def configure_ai_missing bind_def try_except_def print_def
        report_line_def)

lemma main_extract_fails:
  "credential_present w \<Longrightarrow> extract_data_from_pptx w path = (t, Inl e) \<Longrightarrow>
   main w path =
     ([GenaiConfigure (the (GEMINI_API_KEY w)), Stdout (starting_line path)] @ t
        @ [Stdout (report_line e)], Inr ())"
  by (simp add: main_def main_body_def configure_ai_present bind_def try_except_def print_def
        report_line_def starting_line_def)

section \<open>The dictionary that the slide loop builds\<close>

lemma dict_get_new_entries:
  "k < length sls \<Longrightarrow>
   dict_get (new_entries w i sls) (i + int k + 1) = Some (slide_text_spec w (sls ! k))"
proof (induction sls arbitrary: i k)
  case Nil
  then show ?case by simp
next
  case (Cons sl sls)
  show ?case
  proof (cases k)
    case 0
    then show ?thesis by (simp add: new_entries_def dict_get_def)
  next
    case (Suc k')
    then have "k' < length sls" using Cons.prems by simp
    from Cons.IH [OF this, of "i + 1"] Suc show ?thesis
      by (simp add: new_entries_def dict_get_def add.commute add.left_commute)
  qed
qed

lemma outcome_extract_parsed:
  assumes "os_path_exists w path" and "Presentation w path = Inr prs"
  shows "outcome (extract_data_from_pptx w path) =
           (case deck_image_error (slides prs) of
              Some e \<Rightarrow> Inl e
            | None \<Rightarrow> Inr (new_entries w 0 (slides prs)))"
proof -
  have "outcome (for_each (slide_body w) [] (enumerate_from 0 (slides prs)))
          = (case deck_image_error (slides prs) of
               Some e \<Rightarrow> Inl e
             | None \<Rightarrow> Inr ([] @ new_entries w 0 (slides prs)))"
    by (rule outcome_slide_loop) (simp add: dict_keys_def)
  then show ?thesis
    using assms
    by (simp add: extract_data_from_pptx_def py_enumerate_def io_simps split: option.splits)
qed

lemma extract_returns:
  assumes "outcome (extract_data_from_pptx w path) = Inr d"
  shows "\<exists>prs. os_path_exists w path \<and> Presentation w path = Inr prs \<and>
               deck_image_error (slides prs) = None \<and> d = new_entries w 0 (slides prs)"
proof (cases "os_path_exists w path")
  case False
  then show ?thesis
    using assms by (simp add: extract_missing outcome_def)
next
  case True
  show ?thesis
  proof (cases "Presentation w path")
    case (Inl e)
    then show ?thesis
      using assms True by (simp add: extract_unparsable outcome_def)
  next
    case (Inr prs)
    then show ?thesis
      using assms True by (simp add: outcome_extract_parsed split: option.splits)
  qed
qed



lemma sorted_wrt_upto: "sorted_wrt (<) [i .. j]"
  by (simp add: strict_sorted_iff)

lemma extract_keys_ascending:
  assumes "outcome (extract_data_from_pptx w path) = Inr slide_data"
  shows "sorted_wrt (<) (dict_keys slide_data)"
proof -
  from extract_returns [OF assms] obtain prs :: presentation
    where "slide_data = new_entries w 0 (slides prs)" by blast
  then show ?thesis
    by (simp add: keys_new_entries sorted_wrt_upto)
qed

lemma take_enumerate_from: "take j (enumerate_from i xs) = enumerate_from i (take j xs)"
proof (induction xs arbitrary: i j)
  case Nil
  show ?case by simp
next
  case (Cons x xs)
  show ?case by (cases j) (simp_all add: Cons.IH)
qed

lemma new_entries_take: "new_entries w i (take j sls) = take j (new_entries w i sls)"
  by (simp add: new_entries_def take_map take_enumerate_from)

lemma dict_get_take:
  assumes "dict_get (take j d) k = Some v"
  shows "dict_get d k = Some v"
proof -
  have "map_of (take j d @ drop j d) k = Some v"
    using assms by (simp only: map_of_append dict_get_def map_add_def) simp
  then show ?thesis by (simp add: dict_get_def)
qed

lemma deck_image_error_take:
  assumes "deck_image_error sls = None"
  shows "deck_image_error (take j sls) = None"
proof -
  have "deck_image_error (take j sls @ drop j sls) = None"
    using assms by simp
  then show ?thesis
    by (simp only: deck_image_error_append split: option.splits)
qed

lemma slide_loop_returns:
  assumes "outcome (for_each (slide_body w) [] (py_enumerate sls)) = Inr final"
  shows "deck_image_error sls = None" and "final = new_entries w 0 sls"
proof -
  have "outcome (for_each (slide_body w) [] (enumerate_from 0 sls))
          = (case deck_image_error sls of
               Some e \<Rightarrow> Inl e
             | None \<Rightarrow> Inr ([] @ new_entries w 0 sls))"
    by (rule outcome_slide_loop) (simp add: dict_keys_def)
  with assms show "deck_image_error sls = None" and "final = new_entries w 0 sls"
    by (simp_all add: py_enumerate_def split: option.splits)
qed

lemma outcome_slide_loop_prefix:
  assumes "deck_image_error sls = None"
  shows "outcome (for_each (slide_body w) [] (take j (py_enumerate sls)))
           = Inr (take j (new_entries w 0 sls))"
proof -
  have "outcome (for_each (slide_body w) [] (enumerate_from 0 (take j sls)))
          = (case deck_image_error (take j sls) of
               Some e \<Rightarrow> Inl e
             | None \<Rightarrow> Inr ([] @ new_entries w 0 (take j sls)))"
    by (rule outcome_slide_loop) (simp add: dict_keys_def)
  then show ?thesis
    by (simp add: py_enumerate_def take_enumerate_from new_entries_take
          deck_image_error_take [OF assms])
qed

section \<open>Dependence on the recognised text\<close>




section \<open>Blocks of the consolidated text\<close>

lemma map_blocks_by_key:
  "distinct (dict_keys d) \<Longrightarrow>
   map (\<lambda>num. f num (the (dict_get d num))) (dict_keys d) = map (\<lambda>p. f (fst p) (snd p)) d"
proof -
  assume dist: "distinct (dict_keys d)"
  have "f (fst p) (the (dict_get d (fst p))) = f (fst p) (snd p)" if "p \<in> set d" for p
  proof -
    have "map_of d (fst p) = Some (snd p)"
      using dist that by (simp add: dict_keys_def)
    then show ?thesis by (simp add: dict_get_def)
  qed
  then show ?thesis
    by (simp add: dict_keys_def comp_def)
qed

lemma sorted_keys_listing:
  fixes ks :: "int list"
  assumes "sorted_wrt (<) ks"
  shows "sorted_list_of_set (set ks) = ks" and "distinct ks"
proof -
  have "sorted ks \<and> distinct ks"
    using assms by (simp add: strict_sorted_iff)
  then show "sorted_list_of_set (set ks) = ks" and "distinct ks"
    by (simp_all add: sorted_list_of_set.idem_if_sorted_distinct)
qed

section \<open>Facts about the sample run\<close>

lemma sample_deck_found:
  "os_path_exists sample_world ''deck.pptx''"
  "Presentation sample_world ''deck.pptx'' = Inr sample_deck"
  by (simp_all add: sample_world_def sample_parser_def)





section \<open>The slide-content extractor: one entry per slide\<close>




section \<open>The slide-content extractor: what an entry is\<close>



section \<open>Consolidation\<close>

text \<open>
  Claim C3. The join in \<^verbatim>\<open>main\<close> (\<open>consolidate\<close>) turns a slide-text map, that is a dictionary
  whose keys ascend in insertion order, into one block per slide in ascending slide-number
  order, a block being the header line \<^verbatim>\<open>--- Slide N ---\<close>, a newline and the slide's text, and
  two consecutive blocks being separated by an empty line (two newlines). Every dictionary
  that \<^verbatim>\<open>extract_data_from_pptx\<close> returns is such a map. The map \<^verbatim>\<open>{1: "A", 2: "B"}\<close> yields
  exactly the two blocks of the specification, and the empty map yields the empty string.
\<close>

theorem consolidate_blocks_in_order:
  "(sorted_wrt (<) (dict_keys slide_data) \<longrightarrow>
      consolidate slide_data =
        join ''\<newline>\<newline>''
          (map (\<lambda>num. header_line num @ ''\<newline>'' @ the (dict_get slide_data num))
             (sorted_list_of_set (set (dict_keys slide_data))))) \<and>
   (outcome (extract_data_from_pptx w pptx_path) = Inr slide_data \<longrightarrow>
      sorted_wrt (<) (dict_keys slide_data)) \<and>
   consolidate [(1, ''A''), (2, ''B'')]
     = ''--- Slide 1 ---\<newline>A\<newline>\<newline>--- Slide 2 ---\<newline>B'' \<and>
   consolidate [] = []"
proof (intro conjI impI)
  assume asc: "sorted_wrt (<) (dict_keys slide_data)"
  have "map (\<lambda>num. header_line num @ ''\<newline>'' @ the (dict_get slide_data num))
          (sorted_list_of_set (set (dict_keys slide_data)))
        = map (\<lambda>num. (\<lambda>n t. header_line n @ ''\<newline>'' @ t) num (the (dict_get slide_data num)))
            (dict_keys slide_data)"
    by (simp only: sorted_keys_listing(1) [OF asc])
  also have "\<dots> = map (\<lambda>p. header_line (fst p) @ ''\<newline>'' @ snd p) slide_data"
    by (rule map_blocks_by_key) (rule sorted_keys_listing(2) [OF asc])
  also have "\<dots> = map slide_block slide_data"
    by (simp add: slide_block_def header_line_def split_def)
  finally show "consolidate slide_data =
        join ''\<newline>\<newline>''
          (map (\<lambda>num. header_line num @ ''\<newline>'' @ the (dict_get slide_data num))
             (sorted_list_of_set (set (dict_keys slide_data))))"
    by (simp add: consolidate_def)
next
  assume "outcome (extract_data_from_pptx w pptx_path) = Inr slide_data"
  then show "sorted_wrt (<) (dict_keys slide_data)"
    by (rule extract_keys_ascending)
next
  show "consolidate [(1, ''A''), (2, ''B'')]
     = ''--- Slide 1 ---\<newline>A\<newline>\<newline>--- Slide 2 ---\<newline>B''"
    by (simp add: consolidate_def slide_block_def str_def str_nat.simps)
next
  show "consolidate [] = []"
    by (simp add: consolidate_def)
qed

text \<open>The statement at the sample run.\<close>

theorem consolidate_blocks_in_order_witness:
  "sorted_wrt (<) (dict_keys [(1 :: int, ''A''), (2, ''B'')]) \<and>
   join ''\<newline>\<newline>''
     (map (\<lambda>num. header_line num @ ''\<newline>'' @ the (dict_get [(1, ''A''), (2, ''B'')] num))
        (sorted_list_of_set (set (dict_keys [(1 :: int, ''A''), (2, ''B'')]))))
     = ''--- Slide 1 ---\<newline>A\<newline>\<newline>--- Slide 2 ---\<newline>B'' \<and>
   outcome (extract_data_from_pptx sample_world ''other.pptx'')
     = Inr [(1, ''Agenda''), (2, ''Costs''), (3, ''[OCR Text from Image]:\<newline>ABC'')] \<and>
   sorted_wrt (<) (dict_keys [(1 :: int, ''Agenda''), (2, ''Costs''),
                              (3, ''[OCR Text from Image]:\<newline>ABC'')])"
proof -
  have asc: "sorted_wrt (<) (dict_keys [(1 :: int, ''A''), (2, ''B'')])"
    by (simp add: dict_keys_def)
  have run: "outcome (extract_data_from_pptx sample_world ''other.pptx'')
     = Inr [(1, ''Agenda''), (2, ''Costs''), (3, ''[OCR Text from Image]:\<newline>ABC'')]"
    by code_simp
  note ab = consolidate_blocks_in_order
         [of "[(1, ''A''), (2, ''B'')]" sample_world "''other.pptx''"]
  from ab asc have "consolidate [(1, ''A''), (2, ''B'')] =
      join ''\<newline>\<newline>''
     (map (\<lambda>num. header_line num @ ''\<newline>'' @ the (dict_get [(1, ''A''), (2, ''B'')] num))
        (sorted_list_of_set (set (dict_keys [(1 :: int, ''A''), (2, ''B'')]))))"
    by blast
  moreover from ab have "consolidate [(1, ''A''), (2, ''B'')]
      = ''--- Slide 1 ---\<newline>A\<newline>\<newline>--- Slide 2 ---\<newline>B''"
    by blast
  ultimately have "join ''\<newline>\<newline>''
     (map (\<lambda>num. header_line num @ ''\<newline>'' @ the (dict_get [(1, ''A''), (2, ''B'')] num))
        (sorted_list_of_set (set (dict_keys [(1 :: int, ''A''), (2, ''B'')]))))
     = ''--- Slide 1 ---\<newline>A\<newline>\<newline>--- Slide 2 ---\<newline>B''"
    by (simp only:)
  moreover from consolidate_blocks_in_order
         [of "[(1, ''Agenda''), (2, ''Costs''), (3, ''[OCR Text from Image]:\<newline>ABC'')]"
            sample_world "''other.pptx''"] run
  have "sorted_wrt (<) (dict_keys [(1 :: int, ''Agenda''), (2, ''Costs''),
                              (3, ''[OCR Text from Image]:\<newline>ABC'')])"
    by blast
  ultimately show ?thesis
    using asc run by blast
qed

section \<open>The image-text extractor\<close>

text \<open>
  Claim C4. \<^verbatim>\<open>extract_text_from_image\<close> returns a string for every world and every byte
  string and never raises. When the picture is decoded and recognised, the result is the
  recognised text without the whitespace at its two ends: the text is the result between two
  runs of whitespace, and a non-empty result neither starts nor ends with whitespace; nothing
  is printed. When decoding or recognition raises, the result is the empty string and one
  warning line naming the error is printed.
\<close>

theorem extract_text_from_image_total:
  "\<exists>t. outcome (extract_text_from_image w image_bytes) = Inr t \<and>
     (case Image_open w image_bytes of
        Inl e \<Rightarrow>
          t = [] \<and> events (extract_text_from_image w image_bytes)
                    = [ImageOpen image_bytes, Stdout (image_warning e)]
      | Inr img \<Rightarrow>
          (case image_to_string w img of
             Inl e \<Rightarrow>
               t = [] \<and> events (extract_text_from_image w image_bytes)
                         = [ImageOpen image_bytes, ImageToString img, Stdout (image_warning e)]
           | Inr text \<Rightarrow>
               t = strip text \<and>
               (\<exists>pre post. text = pre @ t @ post \<and> list_all isspace pre \<and> list_all isspace post) \<and>
               (t = [] \<or> (\<not> isspace (hd t) \<and> \<not> isspace (last t))) \<and>
               events (extract_text_from_image w image_bytes)
                 = [ImageOpen image_bytes, ImageToString img]))"
proof -
  have "outcome (extract_text_from_image w image_bytes) = Inr (recognized_text w image_bytes)"
    by (rule outcome_extract_text_from_image)
  moreover have "case Image_open w image_bytes of
        Inl e \<Rightarrow>
          recognized_text w image_bytes = [] \<and> events (extract_text_from_image w image_bytes)
                    = [ImageOpen image_bytes, Stdout (image_warning e)]
      | Inr img \<Rightarrow>
          (case image_to_string w img of
             Inl e \<Rightarrow>
               recognized_text w image_bytes = [] \<and> events (extract_text_from_image w image_bytes)
                         = [ImageOpen image_bytes, ImageToString img, Stdout (image_warning e)]
           | Inr text \<Rightarrow>
               recognized_text w image_bytes = strip text \<and>
               (\<exists>pre post. text = pre @ recognized_text w image_bytes @ post
                   \<and> list_all isspace pre \<and> list_all isspace post) \<and>
               (recognized_text w image_bytes = []
                 \<or> (\<not> isspace (hd (recognized_text w image_bytes))
                     \<and> \<not> isspace (last (recognized_text w image_bytes)))) \<and>
               events (extract_text_from_image w image_bytes)
                 = [ImageOpen image_bytes, ImageToString img])"
    using strip_surrounded strip_hd strip_last
    by (auto simp: recognized_text_def events_extract_text_from_image split: sum.splits)
  ultimately show ?thesis by blast
qed

text \<open>The statement at the sample run.\<close>

theorem extract_text_from_image_total_witness:
  "outcome (extract_text_from_image sample_world [1]) = Inr ''ABC'' \<and>
   events (extract_text_from_image sample_world [1]) = [ImageOpen [1], ImageToString (PilImage [1])] \<and>
   outcome (extract_text_from_image sample_world []) = Inr '''' \<and>
   events (extract_text_from_image sample_world [])
     = [ImageOpen [], Stdout ''    - Warning: Could not process an image. Error: cannot identify image file'']"
  using extract_text_from_image_total [of sample_world "[1]"]
    extract_text_from_image_total [of sample_world "[]"]
  by (auto simp: sample_world_def sample_open_def sample_ocr_def strip_def isspace_def
        image_warning_def)

section \<open>The inconsistency analyzer\<close>

text \<open>
  Claim C5. \<^verbatim>\<open>analyze_text_with_gemini\<close> returns a string for every input string and every
  behaviour of the inference service, and never raises. It sends exactly one request, the
  prompt with the input embedded. When the request raises, the result is the fixed message
  \<^verbatim>\<open>An error occurred while communicating with the AI model: \<close> followed by the text of the
  exception; when it succeeds, the result is the service's response, unchanged.
\<close>

theorem analyze_never_raises:
  "\<exists>r. outcome (analyze_text_with_gemini w all_slides_text) = Inr r \<and>
     events (analyze_text_with_gemini w all_slides_text)
       = [GenerateContent (prompt_head @ all_slides_text @ prompt_tail)] \<and>
     (case generate_content w (prompt_head @ all_slides_text @ prompt_tail) of
        Inl e \<Rightarrow> r = ''An error occurred while communicating with the AI model: '' @ exn_str e
      | Inr response \<Rightarrow> r = response)"
  by (simp add: analyze_text_with_gemini_def Let_def io_simps split: sum.splits)

text \<open>The statement at the sample run.\<close>

theorem analyze_never_raises_witness:
  "outcome (analyze_text_with_gemini sample_world ''--- Slide 1 ---\<newline>A'')
     = Inr ''No inconsistencies were found in the presentation.'' \<and>
   outcome (analyze_text_with_gemini offline_world ''--- Slide 1 ---\<newline>A'')
     = Inr ''An error occurred while communicating with the AI model: 503 service unavailable''"
  using analyze_never_raises [of sample_world "''--- Slide 1 ---\<newline>A''"]
    analyze_never_raises [of offline_world "''--- Slide 1 ---\<newline>A''"]
  by (auto simp: sample_world_def offline_world_def)

section \<open>A missing input file\<close>

text \<open>
  Claim C6. When the input path does not exist, \<^verbatim>\<open>extract_data_from_pptx\<close> raises a
  \<^verbatim>\<open>FileNotFoundError\<close> naming the path, an error of another class than the configuration error
  of \<^verbatim>\<open>configure_ai\<close>. The only thing it has done by then is the existence test: the document
  has not been opened or parsed. A run of \<^verbatim>\<open>main\<close> on such a path never opens the document and
  never calls the inference service; with the credential present it configures the client,
  tests the path and prints the error line.
\<close>

theorem missing_path_not_found:
  assumes "\<not> os_path_exists w pptx_path"
  shows "outcome (extract_data_from_pptx w pptx_path) = Inl (not_found_error pptx_path) \<and>
         exn_class (not_found_error pptx_path) = FileNotFoundError \<and>
         exn_class (not_found_error pptx_path) \<noteq> exn_class credential_missing_error \<and>
         events (extract_data_from_pptx w pptx_path) = [OsPathExists pptx_path] \<and>
         filter is_open_or_parse (events (main w pptx_path)) = [] \<and>
         filter is_network_call (events (main w pptx_path)) = [] \<and>
         (credential_present w \<longrightarrow>
            events (main w pptx_path) =
              [GenaiConfigure (the (GEMINI_API_KEY w)), Stdout (starting_line pptx_path),
               OsPathExists pptx_path,
               Stdout (''[!] Error: '' @ exn_str (not_found_error pptx_path))])"
proof (cases "credential_present w")
  case True
  show ?thesis
    using True
    by (simp add: outcome_def events_def extract_missing [OF assms]
          main_extract_fails [OF True extract_missing [OF assms]]
          not_found_error_def credential_missing_error_def report_line_def)
next
  case False
  show ?thesis
    using False
    by (simp add: outcome_def events_def extract_missing [OF assms]
          main_credential_missing [OF False]
          not_found_error_def credential_missing_error_def report_line_def)
qed

text \<open>The statement at the sample run.\<close>

theorem missing_path_not_found_witness:
  "\<not> os_path_exists sample_world ''nope.pptx'' \<and>
   credential_present sample_world \<and>
   outcome (extract_data_from_pptx sample_world ''nope.pptx'')
     = Inl (Exn FileNotFoundError ''The file 'nope.pptx' was not found.'') \<and>
   events (extract_data_from_pptx sample_world ''nope.pptx'') = [OsPathExists ''nope.pptx''] \<and>
   events (main sample_world ''nope.pptx'') =
     [GenaiConfigure ''secret'', Stdout ''[+] Starting analysis of 'nope.pptx'...'',
      OsPathExists ''nope.pptx'', Stdout ''[!] Error: The file 'nope.pptx' was not found.'']"
proof -
  have missing: "\<not> os_path_exists sample_world ''nope.pptx''"
    by (simp add: sample_world_def)
  have key: "credential_present sample_world"
    by (simp add: credential_present_def sample_world_def)
  have "the (GEMINI_API_KEY sample_world) = ''secret''"
    by (simp add: sample_world_def)
  with missing_path_not_found [OF missing] key missing show ?thesis
    by (simp add: not_found_error_def starting_line_def)
qed

section \<open>A file that is not a slide deck\<close>

text \<open>
  Claim C7. When the input path exists and the parser raises on the file (a corrupt file, or
  one that is not a slide-deck container), the parser's exception leaves
  \<^verbatim>\<open>extract_data_from_pptx\<close> unchanged. A run of \<^verbatim>\<open>main\<close> on such a file never calls the
  inference service; with the credential present, the run ends right after the attempt to
  open the file with the line that reports the exception.
\<close>

theorem unparsable_document_aborts:
  assumes "os_path_exists w pptx_path" and "Presentation w pptx_path = Inl e"
  shows "outcome (extract_data_from_pptx w pptx_path) = Inl e \<and>
         events (extract_data_from_pptx w pptx_path)
           = [OsPathExists pptx_path, OpenPresentation pptx_path] \<and>
         filter is_network_call (events (main w pptx_path)) = [] \<and>
         (credential_present w \<longrightarrow>
            events (main w pptx_path) =
              [GenaiConfigure (the (GEMINI_API_KEY w)), Stdout (starting_line pptx_path),
               OsPathExists pptx_path, OpenPresentation pptx_path, Stdout (report_line e)])"
proof (cases "credential_present w")
  case True
  show ?thesis
    using True
    by (simp add: outcome_def events_def extract_unparsable [OF assms]
          main_extract_fails [OF True extract_unparsable [OF assms]])
next
  case False
  show ?thesis
    using False
    by (simp add: outcome_def events_def extract_unparsable [OF assms]
          main_credential_missing [OF False])
qed

text \<open>The statement at the sample run.\<close>

theorem unparsable_document_aborts_witness:
  "os_path_exists sample_world ''notes.txt'' \<and>
   Presentation sample_world ''notes.txt''
     = Inl (Exn (OtherException ''PackageNotFoundError'') ''Package not found'') \<and>
   credential_present sample_world \<and>
   outcome (extract_data_from_pptx sample_world ''notes.txt'')
     = Inl (Exn (OtherException ''PackageNotFoundError'') ''Package not found'') \<and>
   filter is_network_call (events (main sample_world ''notes.txt'')) = [] \<and>
   events (main sample_world ''notes.txt'') =
     [GenaiConfigure ''secret'', Stdout ''[+] Starting analysis of 'notes.txt'...'',
      OsPathExists ''notes.txt'', OpenPresentation ''notes.txt'',
      Stdout ''[!] An unexpected error occurred: Package not found'']"
proof -
  have there: "os_path_exists sample_world ''notes.txt''"
    by (simp add: sample_world_def)
  have bad: "Presentation sample_world ''notes.txt''
     = Inl (Exn (OtherException ''PackageNotFoundError'') ''Package not found'')"
    by (simp add: sample_world_def sample_parser_def)
  have key: "credential_present sample_world"
    by (simp add: credential_present_def sample_world_def)
  have "the (GEMINI_API_KEY sample_world) = ''secret''"
    by (simp add: sample_world_def)
  with unparsable_document_aborts [OF there bad] key there bad show ?thesis
    by (simp add: report_line_def starting_line_def)
qed

section \<open>A missing credential\<close>

text \<open>
  Claim C8. When the credential is absent (\<^verbatim>\<open>GEMINI_API_KEY\<close> unset or empty after the
  environment and the environment file have been read), \<^verbatim>\<open>configure_ai\<close> raises a
  \<^verbatim>\<open>ValueError\<close> with its own message, an error different from the not-found error of any
  path. The whole run of \<^verbatim>\<open>main\<close> then consists of printing that error: the input path is not
  tested, the deck is not opened, nothing is extracted and nothing is sent.
\<close>

theorem missing_credential_fails_fast:
  assumes "GEMINI_API_KEY w = None \<or> GEMINI_API_KEY w = Some []"
  shows "outcome (configure_ai w) = Inl credential_missing_error \<and>
         events (configure_ai w) = [] \<and>
         exn_class credential_missing_error = ValueError \<and>
         (\<forall>path. credential_missing_error \<noteq> not_found_error path) \<and>
         events (main w pptx_file)
           = [Stdout ''[!] Error: GEMINI_API_KEY not found. Please set it in your .env file.''] \<and>
         filter is_document_access (events (main w pptx_file)) = [] \<and>
         outcome (main w pptx_file) = Inr ()"
proof -
  have missing: "\<not> credential_present w"
    using assms by (auto simp: credential_present_def)
  show ?thesis
    by (simp add: outcome_def events_def configure_ai_missing [OF missing]
          main_credential_missing [OF missing] credential_missing_error_def report_line_def
          not_found_error_def)
qed

text \<open>The statement at the sample run.\<close>

theorem missing_credential_fails_fast_witness:
  "GEMINI_API_KEY offline_world = None \<and>
   outcome (configure_ai offline_world)
     = Inl (Exn ValueError ''GEMINI_API_KEY not found. Please set it in your .env file.'') \<and>
   events (main offline_world ''deck.pptx'')
     = [Stdout ''[!] Error: GEMINI_API_KEY not found. Please set it in your .env file.''] \<and>
   outcome (main offline_world ''deck.pptx'') = Inr ()"
proof -
  have none: "GEMINI_API_KEY offline_world = None"
    by (simp add: offline_world_def)
  then have "GEMINI_API_KEY offline_world = None \<or> GEMINI_API_KEY offline_world = Some []"
    by simp
  from missing_credential_fails_fast [OF this, of "''deck.pptx''"] none show ?thesis
    by (simp add: credential_missing_error_def)
qed

section \<open>Determinism of extraction and consolidation\<close>



section \<open>Independence and stability of the entries\<close>

text \<open>
  Claim C10. Among runs that return, the entry of the slide at position \<open>k + 1\<close> depends on the
  shapes of that slide only: two decks that have the same shapes at that position get the
  same entry there, whatever their other slides are. And entries are stable while the loop
  runs: when the slide loop returns, then for every \<open>j\<close> up to the number of slides the loop
  stopped after \<open>j\<close> rounds returns too, its dictionary has the keys \<open>1, \<dots>, j\<close> and is the first
  \<open>j\<close> entries of the final dictionary, so that every entry written is still there, with the
  same text and at the same place, when the loop has finished.
\<close>

theorem slide_entries_independent_and_stable:
  "(Presentation w path1 = Inr prs1 \<and> Presentation w path2 = Inr prs2 \<and>
    outcome (extract_data_from_pptx w path1) = Inr d1 \<and>
    outcome (extract_data_from_pptx w path2) = Inr d2 \<and>
    k < length (slides prs1) \<and> k < length (slides prs2) \<and>
    shapes (slides prs1 ! k) = shapes (slides prs2 ! k) \<longrightarrow>
      (\<exists>text. dict_get d1 (int k + 1) = Some text \<and> dict_get d2 (int k + 1) = Some text)) \<and>
   (outcome (for_each (slide_body w) [] (py_enumerate sls)) = Inr final \<and> j \<le> length sls \<longrightarrow>
      (\<exists>after_j.
         outcome (for_each (slide_body w) [] (take j (py_enumerate sls))) = Inr after_j \<and>
         dict_keys after_j = [1 .. int j] \<and>
         take j final = after_j \<and>
         (\<forall>num text. dict_get after_j num = Some text \<longrightarrow> dict_get final num = Some text)))"
proof (intro conjI impI)
  assume h: "Presentation w path1 = Inr prs1 \<and> Presentation w path2 = Inr prs2 \<and>
    outcome (extract_data_from_pptx w path1) = Inr d1 \<and>
    outcome (extract_data_from_pptx w path2) = Inr d2 \<and>
    k < length (slides prs1) \<and> k < length (slides prs2) \<and>
    shapes (slides prs1 ! k) = shapes (slides prs2 ! k)"
  have d1: "d1 = new_entries w 0 (slides prs1)"
    using extract_returns [of w path1 d1] h by auto
  have d2: "d2 = new_entries w 0 (slides prs2)"
    using extract_returns [of w path2 d2] h by auto
  have "dict_get d1 (int k + 1) = Some (slide_text_spec w (slides prs1 ! k))"
    using dict_get_new_entries [of k "slides prs1" w 0] h by (simp add: d1)
  moreover have "dict_get d2 (int k + 1) = Some (slide_text_spec w (slides prs2 ! k))"
    using dict_get_new_entries [of k "slides prs2" w 0] h by (simp add: d2)
  moreover have "slide_text_spec w (slides prs1 ! k) = slide_text_spec w (slides prs2 ! k)"
    using h by (simp add: slide_text_spec_def)
  ultimately show "\<exists>text. dict_get d1 (int k + 1) = Some text \<and> dict_get d2 (int k + 1) = Some text"
    by simp
next
  assume h: "outcome (for_each (slide_body w) [] (py_enumerate sls)) = Inr final \<and> j \<le> length sls"
  then have ok: "deck_image_error sls = None" and final: "final = new_entries w 0 sls"
    using slide_loop_returns [of w sls final] by simp_all
  have "outcome (for_each (slide_body w) [] (take j (py_enumerate sls))) = Inr (take j final)"
    using outcome_slide_loop_prefix [OF ok] by (simp add: final)
  moreover have "dict_keys (take j final) = [1 .. int j]"
  proof -
    have "dict_keys (take j final) = dict_keys (new_entries w 0 (take j sls))"
      by (simp only: final new_entries_take)
    also have "\<dots> = [0 + 1 .. 0 + int (length (take j sls))]"
      by (rule keys_new_entries)
    also have "\<dots> = [1 .. int j]"
      using h by simp
    finally show ?thesis .
  qed
  moreover have "\<forall>num text. dict_get (take j final) num = Some text
                   \<longrightarrow> dict_get final num = Some text"
    by (intro allI impI) (erule dict_get_take)
  ultimately show "\<exists>after_j.
         outcome (for_each (slide_body w) [] (take j (py_enumerate sls))) = Inr after_j \<and>
         dict_keys after_j = [1 .. int j] \<and>
         take j final = after_j \<and>
         (\<forall>num text. dict_get after_j num = Some text \<longrightarrow> dict_get final num = Some text)"
    by (intro exI [of _ "take j final"]) simp
qed

text \<open>The statement at the sample run.\<close>

theorem slide_entries_independent_and_stable_witness:
  "Presentation sample_world ''deck.pptx'' = Inr sample_deck \<and>
   Presentation sample_world ''other.pptx'' = Inr other_deck \<and>
   outcome (extract_data_from_pptx sample_world ''deck.pptx'')
     = Inr [(1, ''Revenue\<newline>Q1\<newline>Q2\<newline>15M''), (2, ''''),
            (3, ''[OCR Text from Image]:\<newline>ABC''), (4, ''''), (5, ''Chart'')] \<and>
   outcome (extract_data_from_pptx sample_world ''other.pptx'')
     = Inr [(1, ''Agenda''), (2, ''Costs''), (3, ''[OCR Text from Image]:\<newline>ABC'')] \<and>
   shapes (slides sample_deck ! 2) = shapes (slides other_deck ! 2) \<and>
   outcome (for_each (slide_body sample_world) [] (py_enumerate (slides sample_deck)))
     = Inr [(1, ''Revenue\<newline>Q1\<newline>Q2\<newline>15M''), (2, ''''),
            (3, ''[OCR Text from Image]:\<newline>ABC''), (4, ''''), (5, ''Chart'')] \<and>
   outcome (for_each (slide_body sample_world) [] (take 2 (py_enumerate (slides sample_deck))))
     = Inr [(1, ''Revenue\<newline>Q1\<newline>Q2\<newline>15M''), (2, '''')]"
proof -
  let ?d1 = "[(1 :: int, ''Revenue\<newline>Q1\<newline>Q2\<newline>15M''), (2, ''''),
            (3, ''[OCR Text from Image]:\<newline>ABC''), (4, ''''), (5, ''Chart'')]"
  let ?d2 = "[(1 :: int, ''Agenda''), (2, ''Costs''), (3, ''[OCR Text from Image]:\<newline>ABC'')]"
  have other: "Presentation sample_world ''other.pptx'' = Inr other_deck"
    by (simp add: sample_world_def sample_parser_def)
  have run1: "outcome (extract_data_from_pptx sample_world ''deck.pptx'') = Inr ?d1"
    by code_simp
  have run2: "outcome (extract_data_from_pptx sample_world ''other.pptx'') = Inr ?d2"
    by code_simp
  have loop: "outcome (for_each (slide_body sample_world) [] (py_enumerate (slides sample_deck)))
                = Inr ?d1"
    by code_simp
  have same: "shapes (slides sample_deck ! 2) = shapes (slides other_deck ! 2)"
    by (simp add: sample_deck_def other_deck_def)
  have lens: "2 < length (slides sample_deck)" "2 < length (slides other_deck)"
    "2 \<le> length (slides sample_deck)"
    by (simp_all add: sample_deck_def other_deck_def)
  note inst = slide_entries_independent_and_stable
    [of sample_world "''deck.pptx''" sample_deck "''other.pptx''" other_deck ?d1 ?d2 2
        "slides sample_deck" ?d1 2]
  from inst sample_deck_found(2) other run1 run2 same lens
  have "\<exists>text. dict_get ?d1 (int 2 + 1) = Some text \<and> dict_get ?d2 (int 2 + 1) = Some text"
    by blast
  from inst loop lens(3)
  have "\<exists>after_2.
      outcome (for_each (slide_body sample_world) [] (take 2 (py_enumerate (slides sample_deck))))
        = Inr after_2 \<and> take 2 ?d1 = after_2"
    by blast
  then have "outcome (for_each (slide_body sample_world) [] (take 2 (py_enumerate (slides sample_deck))))
        = Inr [(1, ''Revenue\<newline>Q1\<newline>Q2\<newline>15M''), (2, '''')]"
    by simp
  with sample_deck_found(2) other run1 run2 same loop show ?thesis
    by blast
qed

end
